theory Spec2Isabelle
  imports Complex_Main "HOL-Library.AList"
begin

section \<open>Values and dictionaries\<close>

text \<open>
  The request bodies are JSON documents. A JSON number (Python \<open>int\<close> or \<open>float\<close>) is
  modelled by its exact rational value; Python's \<open>bool\<close> is a subclass of \<open>int\<close>, so
  \<open>isinstance(True, (int, float))\<close> holds and \<open>True\<close> counts as 1, \<open>False\<close> as 0.
  Strings are character lists. A dictionary is an association list in insertion order
  (\<open>AList.update\<close> overwrites in place or appends, as a Python \<open>dict\<close> does).
\<close>

datatype json =
    JNull
  | JBool bool
  | JNum rat
  | JStr string
  | JArr "json list"
  | JObj "(string \<times> json) list"

type_synonym behaviors = "(string \<times> rat) list"

definition dict_get :: "(string \<times> 'v) list \<Rightarrow> string \<Rightarrow> 'v \<Rightarrow> 'v" where
  "dict_get d k dflt = (case map_of d k of None \<Rightarrow> dflt | Some v \<Rightarrow> v)"

text \<open>Python's \<open>int(x)\<close> on a number truncates toward zero.\<close>

definition py_int :: "rat \<Rightarrow> int" where
  "py_int x = (if 0 \<le> x then \<lfloor>x\<rfloor> else \<lceil>x\<rceil>)"

text \<open>\<open>sep.join(xs)\<close>\<close>

fun join :: "string \<Rightarrow> string list \<Rightarrow> string" where
  "join sep [] = []"
| "join sep [x] = x"
| "join sep (x # y # ys) = x @ sep @ join sep (y # ys)"

section \<open>Risk calculation algorithms\<close>

definition calculate_churn_risk :: "behaviors \<Rightarrow> int" where
  "calculate_churn_risk behaviors =
    (let rage_clicks = dict_get behaviors ''rageClicks'' 0;
         dead_clicks = dict_get behaviors ''deadClicks'' 0;
         idle_time = dict_get behaviors ''idleTime'' 0;
         hesitations = dict_get behaviors ''hesitations'' 0;
         scroll_count = dict_get behaviors ''scrollCount'' 0;
         mouse_jiggles = dict_get behaviors ''mouseJiggles'' 0;
         frustration_signals =
           (if rage_clicks \<ge> 2 then 1 else 0) +
           (if dead_clicks \<ge> 2 then 1 else 0) +
           (if hesitations \<ge> 3 then 1 else 0) +
           (if idle_time \<ge> 20 then 1 else 0) +
           (if mouse_jiggles \<ge> 6 then 1 else (0::int))
     in if frustration_signals < 2 then min 20 (frustration_signals * 10)
        else
          (let score = rage_clicks * 20 + dead_clicks * 10 + hesitations * 5 +
                       mouse_jiggles * 2 + min (idle_time / 2) 15 * 2
           in min 100 (py_int score)))"

definition identify_root_cause :: "behaviors \<Rightarrow> string" where
  "identify_root_cause behaviors =
    (let rage_clicks = dict_get behaviors ''rageClicks'' 0;
         dead_clicks = dict_get behaviors ''deadClicks'' 0;
         idle_time = dict_get behaviors ''idleTime'' 0;
         hesitations = dict_get behaviors ''hesitations'' 0;
         causes =
           (if rage_clicks \<ge> 2 then [''High frustration (rage clicks detected)''] else []) @
           (if dead_clicks \<ge> 2 then [''UI responsiveness issues (dead clicks)''] else []) @
           (if idle_time \<ge> 15 then [''User confusion or distraction (extended idle)''] else []) @
           (if hesitations \<ge> 3 then [''Purchase hesitation''] else [])
     in if causes = [] then ''Normal user behavior'' else join '' + '' causes)"

definition suggest_intervention :: "int \<Rightarrow> string \<Rightarrow> string" where
  "suggest_intervention risk_score root_cause =
    (if risk_score < 30 then ''Monitor session - no intervention needed''
     else if risk_score < 60 then ''Prepare proactive outreach - user showing mild frustration''
     else ''IMMEDIATE INTERVENTION - Trigger discount popup or live chat'')"

section \<open>Input validation\<close>

datatype error =
    ValidationError "string option"
  | NotFoundError string
  | InternalError

text \<open>
  The session id pattern under \<open>re.match\<close>: one or more characters of the class (letters, digits, hyphen, underscore),
  then the end of the string; Python's \<open>$\<close> (no MULTILINE flag) also matches just before
  a newline that is the last character of the string.
\<close>

definition session_id_char :: "char \<Rightarrow> bool" where
  "session_id_char c \<longleftrightarrow>
     c \<in> set ''abcdefghijklmnopqrstuvwxyzABCDEFGHIJKLMNOPQRSTUVWXYZ0123456789-_''"

definition re_match_session_id :: "string \<Rightarrow> bool" where
  "re_match_session_id s =
     (let body = (if s \<noteq> [] \<and> last s = CHR 0x0A then butlast s else s)
      in body \<noteq> [] \<and> list_all session_id_char body)"

text \<open>
  \<open>validate_session_id\<close> receives whatever \<open>data.get('session_id')\<close> gave: \<open>JNull\<close>
  stands for Python's \<open>None\<close> (key absent or JSON null). A string with a character
  outside ASCII fails the pattern whatever its length, so counting characters of the
  list for \<open>len\<close> gives the same verdict as counting code points.
\<close>

fun validate_session_id :: "json \<Rightarrow> bool" where
  "validate_session_id (JStr session_id) =
     (if session_id = [] then False
      else if length session_id > 100 then False
      else if \<not> re_match_session_id session_id then False
      else True)"
| "validate_session_id _ = False"

definition valid_behaviors :: "string list" where
  "valid_behaviors =
     [''rageClicks'', ''deadClicks'', ''hesitations'', ''idleTime'', ''scrollCount'',
      ''mouseJiggles'',
      ''cartRevisits'', ''itemAddRemoves'', ''scrollDirectionChanges'',
      ''mouseShakeIntensity'',
      ''priceAreaTime'', ''modalToggle'', ''tabSwitches'', ''mouseExitAttempts'',
      ''addToCartActions'', ''checkoutAttempts'']"

text \<open>\<open>isinstance(value, (int, float))\<close> and the number such a value stands for.\<close>

fun is_number :: "json \<Rightarrow> bool" where
  "is_number (JNum x) = True"
| "is_number (JBool b) = True"
| "is_number _ = False"

fun num_value :: "json \<Rightarrow> rat" where
  "num_value (JNum x) = x"
| "num_value (JBool b) = (if b then 1 else 0)"
| "num_value _ = 0"

text \<open>The loop over \<open>behaviors.items()\<close>, returning at the first offending item.\<close>

fun check_behaviors :: "(string \<times> json) list \<Rightarrow> bool \<times> string option" where
  "check_behaviors [] = (True, None)"
| "check_behaviors ((key, value) # rest) =
     (if key \<notin> set valid_behaviors then (False, Some (''Unknown behavior type: '' @ key))
      else if \<not> is_number value \<or> num_value value < 0
        then (False, Some (''Invalid value for '' @ key))
      else check_behaviors rest)"

text \<open>
  The body of a tracking request. A field that the handler reads with a default is an
  option (\<open>None\<close>: key absent). \<open>session_id\<close> and \<open>behaviors\<close> are kept as raw JSON,
  since validation inspects their type.
\<close>

record track_request =
  tr_session_id :: "json option"
  tr_behaviors :: "json option"
  tr_timestamp :: int
  tr_events :: "json list"
  tr_mood :: "string option"
  tr_mood_scores :: "(string \<times> rat) list option"
  tr_mood_confidence :: "rat option"

definition validate_behavior_data :: "track_request \<Rightarrow> bool \<times> string option" where
  "validate_behavior_data data =
     (if tr_session_id data = None then (False, Some ''Missing required field: session_id'')
      else if tr_behaviors data = None then (False, Some ''Missing required field: behaviors'')
      else if \<not> validate_session_id (the (tr_session_id data))
        then (False, Some ''Invalid session ID format'')
      else (case the (tr_behaviors data) of
              JObj behaviors \<Rightarrow> check_behaviors behaviors
            | _ \<Rightarrow> (False, Some ''Behaviors must be an object'')))"

section \<open>Sessions and the session store\<close>

record mood_change =
  mc_mood :: string
  mc_confidence :: rat
  mc_timestamp :: int

record session =
  session_id :: string
  start_time :: int
  last_active :: int
  events :: "json list"
  behaviors :: behaviors
  risk_score :: int
  root_cause :: string
  suggested_action :: string
  intervention_triggered :: bool
  intervention_type :: "string option"
  intervention_time :: "int option"
  conversion_status :: string
  order_value :: rat
  converted_at :: "int option"
  mood :: string
  mood_scores :: "(string \<times> rat) list"
  mood_confidence :: rat
  mood_history :: "mood_change list"

text \<open>
  The store is either Redis (\<open>redis_client\<close> set at start-up; every entry carries the
  expiry it was written with, in seconds) or the in-process dictionary
  \<open>sessions_memory\<close>, which has no expiry. Redis keys are the session ids (the fixed
  prefix \<open>session:\<close> is left out); serialising a session to JSON and back is the
  identity. Redis is taken to answer every call, so the \<open>except\<close> branches that fall
  back to memory are not reached, and no time passes between calls: expiry itself is
  not modelled, only the expiry written.
\<close>

record store =
  redis_client :: bool
  redis_db :: "(string \<times> nat \<times> session) list"
  sessions_memory :: "(string \<times> session) list"

definition init_store :: "bool \<Rightarrow> store" where
  "init_store redis = \<lparr>redis_client = redis, redis_db = [], sessions_memory = []\<rparr>"

definition store_session_redis :: "store \<Rightarrow> string \<Rightarrow> session \<Rightarrow> store" where
  "store_session_redis st sid session_data =
     (if redis_client st
      then st\<lparr>redis_db := AList.update sid (300, session_data) (redis_db st)\<rparr>
      else st\<lparr>sessions_memory := AList.update sid session_data (sessions_memory st)\<rparr>)"

definition get_session_redis :: "store \<Rightarrow> string \<Rightarrow> session option" where
  "get_session_redis st sid =
     (if redis_client st then map_option snd (map_of (redis_db st) sid)
      else map_of (sessions_memory st) sid)"

definition get_all_sessions_redis :: "store \<Rightarrow> session list" where
  "get_all_sessions_redis st =
     (if redis_client st then map (\<lambda>(key, ttl, data). data) (redis_db st)
      else map snd (sessions_memory st))"

text \<open>The expiry an entry was last written with (Redis only).\<close>

definition session_ttl :: "store \<Rightarrow> string \<Rightarrow> nat option" where
  "session_ttl st sid =
     (if redis_client st then map_option fst (map_of (redis_db st) sid) else None)"

section \<open>Tracking\<close>

record track_response =
  rs_session_id :: string
  rs_risk_score :: int
  rs_root_cause :: string
  rs_suggested_action :: string
  rs_mood :: string

text \<open>The dictionary a first tracking event creates.\<close>

definition new_session :: "string \<Rightarrow> int \<Rightarrow> session" where
  "new_session sid timestamp =
     \<lparr>session_id = sid,
      start_time = timestamp,
      last_active = timestamp,
      events = [],
      behaviors = [(''rageClicks'', 0), (''deadClicks'', 0), (''idleTime'', 0),
                   (''hesitations'', 0), (''scrollCount'', 0), (''mouseJiggles'', 0)],
      risk_score = 0,
      root_cause = ''Normal user behavior'',
      suggested_action = ''Monitor session'',
      intervention_triggered = False,
      intervention_type = None,
      intervention_time = None,
      conversion_status = ''pending'',
      order_value = 0,
      converted_at = None,
      mood = ''neutral'',
      mood_scores = [],
      mood_confidence = 0,
      mood_history = []\<rparr>"

text \<open>
  \<open>for key, value in behaviors.items(): session['behaviors'][key] =
  max(session['behaviors'].get(key, 0), value)\<close>
\<close>

fun update_behaviors :: "behaviors \<Rightarrow> (string \<times> json) list \<Rightarrow> behaviors" where
  "update_behaviors sb [] = sb"
| "update_behaviors sb ((key, value) # rest) =
     update_behaviors (AList.update key (max (dict_get sb key 0) (num_value value)) sb) rest"

text \<open>
  The body of \<open>track_events\<close> after the session has been fetched or created: what one
  tracking event does to the session dictionary.
\<close>

definition update_session ::
    "session \<Rightarrow> int \<Rightarrow> json list \<Rightarrow> (string \<times> json) list \<Rightarrow> string \<Rightarrow>
     (string \<times> rat) list \<Rightarrow> rat \<Rightarrow> session" where
  "update_session s0 timestamp evs delta md md_scores md_confidence =
     (let s1 = s0\<lparr>last_active := timestamp, events := events s0 @ evs\<rparr>;
          s2 = s1\<lparr>behaviors := update_behaviors (behaviors s1) delta\<rparr>;
          s3 = (if md \<noteq> ''neutral'' \<and> md \<noteq> mood s2
                then s2\<lparr>mood_history := mood_history s2 @
                       [\<lparr>mc_mood = md, mc_confidence = md_confidence,
                         mc_timestamp = timestamp\<rparr>]\<rparr>
                else s2);
          s4 = s3\<lparr>mood := md, mood_scores := md_scores, mood_confidence := md_confidence\<rparr>;
          rscore = calculate_churn_risk (behaviors s4);
          rcause = identify_root_cause (behaviors s4);
          action = suggest_intervention rscore rcause
      in s4\<lparr>risk_score := rscore, root_cause := rcause, suggested_action := action\<rparr>)"

text \<open>The session a tracking event works on: the stored one, or a new one.\<close>

definition get_or_create :: "store \<Rightarrow> string \<Rightarrow> int \<Rightarrow> session" where
  "get_or_create st sid timestamp =
     (case get_session_redis st sid of
        None \<Rightarrow> new_session sid timestamp
      | Some s \<Rightarrow> s)"

text \<open>
  What the handler reads from the request body: \<open>data.get('session_id')\<close> and
  \<open>data.get('behaviors', {})\<close> (a string and an object once validation has passed), and
  the mood fields with their defaults.
\<close>

definition req_session_id :: "track_request \<Rightarrow> string" where
  "req_session_id data = (case tr_session_id data of Some (JStr s) \<Rightarrow> s | _ \<Rightarrow> [])"

definition req_behaviors :: "track_request \<Rightarrow> (string \<times> json) list" where
  "req_behaviors data = (case tr_behaviors data of Some (JObj kvs) \<Rightarrow> kvs | _ \<Rightarrow> [])"

definition req_mood :: "track_request \<Rightarrow> string" where
  "req_mood data = (case tr_mood data of Some m \<Rightarrow> m | None \<Rightarrow> ''neutral'')"

definition req_mood_scores :: "track_request \<Rightarrow> (string \<times> rat) list" where
  "req_mood_scores data = (case tr_mood_scores data of Some m \<Rightarrow> m | None \<Rightarrow> [])"

definition req_mood_confidence :: "track_request \<Rightarrow> rat" where
  "req_mood_confidence data = (case tr_mood_confidence data of Some c \<Rightarrow> c | None \<Rightarrow> 0)"

definition track_events :: "store \<Rightarrow> track_request \<Rightarrow> store \<times> (error + track_response)" where
  "track_events st data =
     (let (is_valid, error_msg) = validate_behavior_data data in
      if \<not> is_valid then (st, Inl (ValidationError error_msg))
      else
        (let sid = req_session_id data;
             timestamp = tr_timestamp data;
             s0 = get_or_create st sid timestamp;
             s5 = update_session s0 timestamp (tr_events data) (req_behaviors data)
                    (req_mood data) (req_mood_scores data) (req_mood_confidence data)
         in (store_session_redis st sid s5,
             Inr \<lparr>rs_session_id = sid, rs_risk_score = risk_score s5,
                  rs_root_cause = root_cause s5,
                  rs_suggested_action = suggested_action s5, rs_mood = req_mood data\<rparr>)))"

section \<open>Interventions and conversions\<close>

record intervention_request =
  ir_session_id :: json
  ir_intervention_type :: "string option"
  ir_timestamp :: int

definition mark_intervention :: "store \<Rightarrow> intervention_request \<Rightarrow> store \<times> (error + unit)" where
  "mark_intervention st data =
     (let itype = (case ir_intervention_type data of Some t \<Rightarrow> t | None \<Rightarrow> ''discount_popup'');
          timestamp = ir_timestamp data
      in if \<not> validate_session_id (ir_session_id data)
         then (st, Inl (ValidationError (Some ''Invalid session ID format'')))
         else
           (let sid = (case ir_session_id data of JStr s \<Rightarrow> s | _ \<Rightarrow> []) in
            case get_session_redis st sid of
              None \<Rightarrow> (st, Inl (NotFoundError ''Session not found''))
            | Some s \<Rightarrow>
                (store_session_redis st sid
                   (s\<lparr>intervention_triggered := True,
                      intervention_type := Some itype,
                      intervention_time := Some timestamp\<rparr>),
                 Inr ())))"

record conversion_request =
  cr_session_id :: json
  cr_order_value :: "rat option"
  cr_timestamp :: int

record conversion_response =
  cv_salvaged :: bool
  cv_revenue_saved :: rat
  cv_conversion_status :: string

definition record_conversion ::
    "store \<Rightarrow> conversion_request \<Rightarrow> store \<times> (error + conversion_response)" where
  "record_conversion st data =
     (let ovalue = (case cr_order_value data of Some v \<Rightarrow> v | None \<Rightarrow> 0);
          timestamp = cr_timestamp data
      in if \<not> validate_session_id (cr_session_id data)
         then (st, Inl (ValidationError (Some ''Invalid session ID format'')))
         else
           (let sid = (case cr_session_id data of JStr s \<Rightarrow> s | _ \<Rightarrow> []) in
            case get_session_redis st sid of
              None \<Rightarrow> (st, Inl (NotFoundError ''Session not found''))
            | Some s \<Rightarrow>
                (let is_salvaged = (risk_score s \<ge> 60 \<and> intervention_triggered s = True);
                     s' = s\<lparr>conversion_status := (if is_salvaged then ''salvaged'' else ''converted''),
                            order_value := ovalue,
                            converted_at := Some timestamp\<rparr>
                 in ((if redis_client st
                      then st\<lparr>redis_db := AList.update sid (3600, s') (redis_db st)\<rparr>
                      else st\<lparr>sessions_memory := AList.update sid s' (sessions_memory st)\<rparr>),
                     Inr \<lparr>cv_salvaged = is_salvaged,
                          cv_revenue_saved = (if is_salvaged then ovalue else 0),
                          cv_conversion_status = conversion_status s'\<rparr>))))"

section \<open>Dashboard\<close>

text \<open>Decimal rendering of an integer, as an f-string prints it.\<close>

function str_nat :: "nat \<Rightarrow> string" where
  "str_nat n = (if n < 10 then [char_of (48 + n)]
                else str_nat (n div 10) @ [char_of (48 + n mod 10)])"
  by pat_completeness auto
termination
  by (relation "measure id") auto

declare str_nat.simps [simp del]

definition str_int :: "int \<Rightarrow> string" where
  "str_int i = (if i < 0 then CHR ''-'' # str_nat (nat (- i)) else str_nat (nat i))"

record session_summary =
  ss_session_id :: string
  ss_risk_score :: int
  ss_root_cause :: string
  ss_suggested_action :: string
  ss_last_active :: string
  ss_behaviors :: behaviors
  ss_mood :: string
  ss_mood_confidence :: rat
  ss_mood_scores :: "(string \<times> rat) list"

record sessions_response =
  sr_sessions :: "session_summary list"
  sr_total_sessions :: nat
  sr_high_risk_count :: nat

definition last_active_seconds :: "int \<Rightarrow> session \<Rightarrow> rat" where
  "last_active_seconds current_time s = of_int (current_time - last_active s) / 1000"

definition summary :: "int \<Rightarrow> session \<Rightarrow> session_summary" where
  "summary current_time s =
     \<lparr>ss_session_id = session_id s,
      ss_risk_score = risk_score s,
      ss_root_cause = root_cause s,
      ss_suggested_action = suggested_action s,
      ss_last_active = str_int (py_int (last_active_seconds current_time s)) @ ''s ago'',
      ss_behaviors = behaviors s,
      ss_mood = mood s,
      ss_mood_confidence = mood_confidence s,
      ss_mood_scores = mood_scores s\<rparr>"

text \<open>
  \<open>current_time\<close> stands for \<open>int(time.time() * 1000)\<close>.
  \<open>list.sort(key=..., reverse=True)\<close> is a stable sort in descending key order:
  \<open>sort_key\<close> on the negated key.
\<close>

definition get_all_sessions :: "store \<Rightarrow> int \<Rightarrow> sessions_response" where
  "get_all_sessions st current_time =
     (let all_sessions = get_all_sessions_redis st;
          active_sessions =
            map (summary current_time)
              (filter (\<lambda>s. last_active_seconds current_time s < 300) all_sessions);
          sorted_sessions = sort_key (\<lambda>x. - ss_risk_score x) active_sessions
      in \<lparr>sr_sessions = sorted_sessions,
          sr_total_sessions = length sorted_sessions,
          sr_high_risk_count = length (filter (\<lambda>x. ss_risk_score x \<ge> 60) sorted_sessions)\<rparr>)"

text \<open>
  \<open>round(x, ndigits)\<close>: to the nearest multiple of \<open>10 ^ -ndigits\<close>, a tie going to the
  even neighbour.
\<close>

definition round_half_even :: "rat \<Rightarrow> int" where
  "round_half_even x =
     (let f = \<lfloor>x\<rfloor>; d = x - of_int f
      in if d < 1 / 2 then f else if d > 1 / 2 then f + 1 else if even f then f else f + 1)"

definition py_round :: "rat \<Rightarrow> nat \<Rightarrow> rat" where
  "py_round x ndigits = of_int (round_half_even (x * 10 ^ ndigits)) / 10 ^ ndigits"

record salvage_stats =
  total_salvaged_customers :: nat
  total_revenue_saved :: rat
  salvage_rate :: rat
  intervention_success_rate :: rat
  avg_salvage_value :: rat
  total_high_risk :: nat
  total_conversions :: nat
  total_revenue :: rat
  salvaged_sessions :: "session list"

definition get_salvage_stats :: "store \<Rightarrow> salvage_stats" where
  "get_salvage_stats st =
     (let all_sessions = get_all_sessions_redis st;
          high_risk = filter (\<lambda>s. risk_score s \<ge> 60) all_sessions;
          salvaged = filter (\<lambda>s. conversion_status s = ''salvaged'') all_sessions;
          converted = filter (\<lambda>s. conversion_status s \<in> set [''converted'', ''salvaged''])
                        all_sessions;
          n_salvaged = length salvaged;
          n_high_risk = length high_risk;
          n_conversions = length converted;
          rate = (if n_high_risk > 0 then of_nat n_salvaged / of_nat n_high_risk else 0);
          revenue_saved = sum_list (map order_value salvaged);
          avg_value = (if n_salvaged > 0 then revenue_saved / of_nat n_salvaged else 0);
          success_rate = rate;
          revenue = sum_list (map order_value converted)
      in \<lparr>total_salvaged_customers = n_salvaged,
          total_revenue_saved = py_round revenue_saved 2,
          salvage_rate = py_round rate 4,
          intervention_success_rate = py_round success_rate 4,
          avg_salvage_value = py_round avg_value 2,
          total_high_risk = n_high_risk,
          total_conversions = n_conversions,
          total_revenue = py_round revenue 2,
          salvaged_sessions = salvaged\<rparr>)"

section \<open>Sequences of operations\<close>

datatype operation =
    Track track_request
  | Intervene intervention_request
  | Convert conversion_request

fun step :: "store \<Rightarrow> operation \<Rightarrow> store" where
  "step st (Track data) = fst (track_events st data)"
| "step st (Intervene data) = fst (mark_intervention st data)"
| "step st (Convert data) = fst (record_conversion st data)"

definition run :: "store \<Rightarrow> operation list \<Rightarrow> store" where
  "run st ops = foldl step st ops"

section \<open>The scoring rule as the specification words it\<close>

definition spec_signal_count :: "behaviors \<Rightarrow> nat" where
  "spec_signal_count b =
     length (filter id
       [dict_get b ''rageClicks'' 0 \<ge> 2,
        dict_get b ''deadClicks'' 0 \<ge> 2,
        dict_get b ''hesitations'' 0 \<ge> 3,
        dict_get b ''idleTime'' 0 \<ge> 20,
        dict_get b ''mouseJiggles'' 0 \<ge> 6])"

definition spec_weighted_sum :: "behaviors \<Rightarrow> rat" where
  "spec_weighted_sum b =
     dict_get b ''rageClicks'' 0 * 20 + dict_get b ''deadClicks'' 0 * 10 +
     dict_get b ''hesitations'' 0 * 5 + dict_get b ''mouseJiggles'' 0 * 2 +
     min (dict_get b ''idleTime'' 0 / 2) 15 * 2"


definition scoring_keys :: "string list" where
  "scoring_keys =
     [''rageClicks'', ''deadClicks'', ''hesitations'', ''idleTime'', ''mouseJiggles'']"

definition non_negative :: "behaviors \<Rightarrow> bool" where
  "non_negative b \<longleftrightarrow> (\<forall>(k, v) \<in> set b. 0 \<le> v)"

section \<open>Auxiliary notions for the properties\<close>


definition store_put :: "store \<Rightarrow> string \<Rightarrow> nat \<Rightarrow> session \<Rightarrow> store" where
  "store_put st key ttl v =
     (if redis_client st
      then st\<lparr>redis_db := AList.update key (ttl, v) (redis_db st)\<rparr>
      else st\<lparr>sessions_memory := AList.update key v (sessions_memory st)\<rparr>)"

definition mark_session :: "session \<Rightarrow> intervention_request \<Rightarrow> session" where
  "mark_session s data =
     s\<lparr>intervention_triggered := True,
       intervention_type := Some (case ir_intervention_type data of Some t \<Rightarrow> t
                                  | None \<Rightarrow> ''discount_popup''),
       intervention_time := Some (ir_timestamp data)\<rparr>"

definition is_salvaged :: "session \<Rightarrow> bool" where
  "is_salvaged s \<longleftrightarrow> risk_score s \<ge> 60 \<and> intervention_triggered s"

definition convert_session :: "session \<Rightarrow> conversion_request \<Rightarrow> session" where
  "convert_session s data =
     s\<lparr>conversion_status := (if is_salvaged s then ''salvaged'' else ''converted''),
       order_value := (case cr_order_value data of Some v \<Rightarrow> v | None \<Rightarrow> 0),
       converted_at := Some (cr_timestamp data)\<rparr>"

definition tracked_session :: "store \<Rightarrow> track_request \<Rightarrow> session" where
  "tracked_session st data =
     update_session (get_or_create st (req_session_id data) (tr_timestamp data))
       (tr_timestamp data) (tr_events data) (req_behaviors data)
       (req_mood data) (req_mood_scores data) (req_mood_confidence data)"

definition track_req :: "string \<Rightarrow> int \<Rightarrow> (string \<times> json) list \<Rightarrow> string option \<Rightarrow> track_request" where
  "track_req sid t kvs m =
     \<lparr>tr_session_id = Some (JStr sid), tr_behaviors = Some (JObj kvs), tr_timestamp = t,
      tr_events = [], tr_mood = m, tr_mood_scores = None, tr_mood_confidence = None\<rparr>"

text \<open>Stores that arise from an empty store by a sequence of operations.\<close>

inductive reachable :: "store \<Rightarrow> bool" where
  reachable_init: "reachable (init_store redis)"
| reachable_step: "reachable st \<Longrightarrow> reachable (step st opn)"

text \<open>Sample requests and a sample store, for the concrete instances below.\<close>

definition conv_req :: "string \<Rightarrow> rat \<Rightarrow> int \<Rightarrow> conversion_request" where
  "conv_req sid v t = \<lparr>cr_session_id = JStr sid, cr_order_value = Some v, cr_timestamp = t\<rparr>"

definition int_req :: "string \<Rightarrow> int \<Rightarrow> intervention_request" where
  "int_req sid t = \<lparr>ir_session_id = JStr sid, ir_intervention_type = None, ir_timestamp = t\<rparr>"

definition demo_store :: store where
  "demo_store = run (init_store True)
     [Track (track_req ''s1'' 1000 [(''rageClicks'', JNum 3), (''hesitations'', JNum 3)] None),
      Intervene (int_req ''s1'' 1500)]"



text \<open>
  What holds of every stored session: its status is one of the three, its counters are
  non-negative, its risk score is the score of its counters, and a salvaged session is
  high-risk with an intervention recorded.
\<close>

definition session_inv :: "session \<Rightarrow> bool" where
  "session_inv s \<longleftrightarrow>
     conversion_status s \<in> set [''pending'', ''converted'', ''salvaged'']
     \<and> non_negative (behaviors s)
     \<and> risk_score s = calculate_churn_risk (behaviors s)
     \<and> (conversion_status s = ''salvaged'' \<longrightarrow> risk_score s \<ge> 60 \<and> intervention_triggered s)"

text \<open>A conversion without intervention, then an intervention and a second conversion.\<close>

definition reconversion_ops :: "operation list" where
  "reconversion_ops =
     [Track (track_req ''c1'' 1000 [(''rageClicks'', JNum 3), (''hesitations'', JNum 3)] None),
      Convert (conv_req ''c1'' 50 2000),
      Intervene (int_req ''c1'' 3000),
      Convert (conv_req ''c1'' 50 4000)]"

definition status_after :: "store \<Rightarrow> operation list \<Rightarrow> string \<Rightarrow> string option" where
  "status_after st ops sid = map_option conversion_status (get_session_redis (run st ops) sid)"

section \<open>Properties\<close>

subsection \<open>Risk score\<close>

lemma dict_get_nonneg: "non_negative b \<Longrightarrow> 0 \<le> dict_get b k 0"
  by (auto simp: non_negative_def dict_get_def split: option.splits dest: map_of_SomeD)

lemma dict_get_update_other:
  "k' \<noteq> k \<Longrightarrow> dict_get (AList.update k v b) k' d = dict_get b k' d"
  by (simp add: dict_get_def update_conv')

lemma dict_get_update_same: "dict_get (AList.update k v b) k d = v"
  by (simp add: dict_get_def update_conv')

lemma py_int_nonneg: "0 \<le> x \<Longrightarrow> py_int x = \<lfloor>x\<rfloor>"
  by (simp add: py_int_def)


lemma calculate_churn_risk_unfold:
  "calculate_churn_risk b =
     (if spec_signal_count b < 2 then min 20 (int (spec_signal_count b) * 10)
      else min 100 (py_int (spec_weighted_sum b)))"
  by (simp add: calculate_churn_risk_def spec_signal_count_def spec_weighted_sum_def Let_def)

lemma spec_weighted_sum_nonneg: "non_negative b \<Longrightarrow> 0 \<le> spec_weighted_sum b"
  unfolding spec_weighted_sum_def
  by (intro add_nonneg_nonneg mult_nonneg_nonneg) (simp_all add: dict_get_nonneg)




subsection \<open>The store and the handlers\<close>

lemma get_store_session:
  "get_session_redis (store_session_redis st sid s) sid' =
     (if sid' = sid then Some s else get_session_redis st sid')"
  by (simp add: get_session_redis_def store_session_redis_def update_conv')


lemma valid_requestD:
  assumes "fst (validate_behavior_data data)"
  shows "tr_session_id data = Some (JStr (req_session_id data))"
    and "tr_behaviors data = Some (JObj (req_behaviors data))"
    and "validate_session_id (JStr (req_session_id data))"
    and "fst (check_behaviors (req_behaviors data))"
proof -
  from assms obtain j where j: "tr_session_id data = Some j" "validate_session_id j"
    by (auto simp: validate_behavior_data_def split: if_splits)
  then obtain sid where "j = JStr sid" by (cases j) auto
  with j show "tr_session_id data = Some (JStr (req_session_id data))"
    and "validate_session_id (JStr (req_session_id data))"
    by (simp_all add: req_session_id_def)
  from assms obtain b where b: "tr_behaviors data = Some b"
    by (auto simp: validate_behavior_data_def split: if_splits)
  with assms j obtain kvs where "b = JObj kvs" "fst (check_behaviors kvs)"
    by (cases b) (auto simp: validate_behavior_data_def split: if_splits)
  with b show "tr_behaviors data = Some (JObj (req_behaviors data))"
    and "fst (check_behaviors (req_behaviors data))"
    by (simp_all add: req_behaviors_def)
qed

lemma track_events_invalid:
  "\<not> fst (validate_behavior_data data) \<Longrightarrow>
     track_events st data = (st, Inl (ValidationError (snd (validate_behavior_data data))))"
  by (cases "validate_behavior_data data") (simp add: track_events_def)

lemma track_events_valid:
  "fst (validate_behavior_data data) \<Longrightarrow>
     fst (track_events st data) =
       store_session_redis st (req_session_id data)
         (update_session (get_or_create st (req_session_id data) (tr_timestamp data))
            (tr_timestamp data) (tr_events data) (req_behaviors data)
            (req_mood data) (req_mood_scores data) (req_mood_confidence data))"
  by (cases "validate_behavior_data data") (simp add: track_events_def Let_def)


lemma update_behaviors_mono:
  "dict_get sb k 0 \<le> dict_get (update_behaviors sb d) k 0"
proof (induction sb d rule: update_behaviors.induct)
  case (1 sb)
  then show ?case by simp
next
  case (2 sb key v rest)
  have "dict_get sb k 0 \<le> dict_get (AList.update key (max (dict_get sb key 0) (num_value v)) sb) k 0"
    by (cases "k = key") (simp_all add: dict_get_update_same dict_get_update_other)
  with 2 show ?case by simp
qed


lemma store_session_redis_put: "store_session_redis st sid s = store_put st sid 300 s"
  by (simp add: store_session_redis_def store_put_def)

lemma get_store_put:
  "get_session_redis (store_put st sid t s) sid' =
     (if sid' = sid then Some s else get_session_redis st sid')"
  by (simp add: get_session_redis_def store_put_def update_conv')

lemma track_events_store:
  "fst (track_events st data) =
     (if fst (validate_behavior_data data)
      then store_put st (req_session_id data) 300 (tracked_session st data) else st)"
  by (cases "validate_behavior_data data")
     (simp add: track_events_def Let_def tracked_session_def store_session_redis_put)

lemma mark_intervention_invalid:
  "\<not> validate_session_id (ir_session_id data) \<Longrightarrow>
     mark_intervention st data = (st, Inl (ValidationError (Some ''Invalid session ID format'')))"
  by (simp add: mark_intervention_def del: validate_session_id.simps)

lemma mark_intervention_absent:
  "validate_session_id (JStr sid) \<Longrightarrow> ir_session_id data = JStr sid \<Longrightarrow>
   get_session_redis st sid = None \<Longrightarrow>
     mark_intervention st data = (st, Inl (NotFoundError ''Session not found''))"
  by (simp add: mark_intervention_def del: validate_session_id.simps)

lemma mark_intervention_present:
  "validate_session_id (JStr sid) \<Longrightarrow> ir_session_id data = JStr sid \<Longrightarrow>
   get_session_redis st sid = Some s \<Longrightarrow>
     mark_intervention st data = (store_put st sid 300 (mark_session s data), Inr ())"
  by (simp add: mark_intervention_def mark_session_def store_session_redis_put del: validate_session_id.simps)

lemma record_conversion_invalid:
  "\<not> validate_session_id (cr_session_id data) \<Longrightarrow>
     record_conversion st data = (st, Inl (ValidationError (Some ''Invalid session ID format'')))"
  by (simp add: record_conversion_def del: validate_session_id.simps)

lemma record_conversion_absent:
  "validate_session_id (JStr sid) \<Longrightarrow> cr_session_id data = JStr sid \<Longrightarrow>
   get_session_redis st sid = None \<Longrightarrow>
     record_conversion st data = (st, Inl (NotFoundError ''Session not found''))"
  by (simp add: record_conversion_def del: validate_session_id.simps)

lemma record_conversion_present:
  "validate_session_id (JStr sid) \<Longrightarrow> cr_session_id data = JStr sid \<Longrightarrow>
   get_session_redis st sid = Some s \<Longrightarrow>
     record_conversion st data =
       (store_put st sid 3600 (convert_session s data),
        Inr \<lparr>cv_salvaged = is_salvaged s,
             cv_revenue_saved = (if is_salvaged s
                then (case cr_order_value data of Some v \<Rightarrow> v | None \<Rightarrow> 0) else 0),
             cv_conversion_status = (if is_salvaged s then ''salvaged'' else ''converted'')\<rparr>)"
  by (simp add: record_conversion_def convert_session_def store_put_def is_salvaged_def Let_def del: validate_session_id.simps)

lemma validate_session_id_str: "validate_session_id j \<Longrightarrow> \<exists>sid. j = JStr sid"
  by (cases j) auto

text \<open>What one operation does to the entry of a session id.\<close>

lemma step_cases:
  "get_session_redis (step st opn) sid = get_session_redis st sid
   \<or> (\<exists>data. opn = Track data \<and> fst (validate_behavior_data data) \<and> req_session_id data = sid
        \<and> get_session_redis (step st opn) sid = Some (tracked_session st data))
   \<or> (\<exists>data s. opn = Intervene data \<and> ir_session_id data = JStr sid
        \<and> get_session_redis st sid = Some s
        \<and> get_session_redis (step st opn) sid = Some (mark_session s data))
   \<or> (\<exists>data s. opn = Convert data \<and> cr_session_id data = JStr sid
        \<and> get_session_redis st sid = Some s
        \<and> get_session_redis (step st opn) sid = Some (convert_session s data))"
proof (cases opn)
  case (Track data)
  then show ?thesis
    by (simp add: track_events_store get_store_put)
next
  case (Intervene data)
  show ?thesis
  proof (cases "validate_session_id (ir_session_id data)")
    case False
    with Intervene show ?thesis by (simp add: mark_intervention_invalid)
  next
    case True
    then obtain sid' where sid': "ir_session_id data = JStr sid'"
      using validate_session_id_str by blast
    with True have v: "validate_session_id (JStr sid')" by simp
    show ?thesis
    proof (cases "get_session_redis st sid'")
      case None
      with Intervene v sid' show ?thesis by (simp add: mark_intervention_absent)
    next
      case (Some s)
      with Intervene v sid' show ?thesis
        by (cases "sid = sid'") (simp_all add: mark_intervention_present get_store_put)
    qed
  qed
next
  case (Convert data)
  show ?thesis
  proof (cases "validate_session_id (cr_session_id data)")
    case False
    with Convert show ?thesis by (simp add: record_conversion_invalid)
  next
    case True
    then obtain sid' where sid': "cr_session_id data = JStr sid'"
      using validate_session_id_str by blast
    with True have v: "validate_session_id (JStr sid')" by simp
    show ?thesis
    proof (cases "get_session_redis st sid'")
      case None
      with Convert v sid' show ?thesis by (simp add: record_conversion_absent)
    next
      case (Some s)
      with Convert v sid' show ?thesis
        by (cases "sid = sid'") (simp_all add: record_conversion_present get_store_put)
    qed
  qed
qed

lemma run_Nil: "run st [] = st"
  by (simp add: run_def)

lemma run_Cons: "run st (opn # ops) = run (step st opn) ops"
  by (simp add: run_def)

lemma run_snoc: "run st (ops @ [opn]) = step (run st ops) opn"
  by (simp add: run_def)

lemma get_or_create_Some: "get_session_redis st sid = Some s \<Longrightarrow> get_or_create st sid t = s"
  by (simp add: get_or_create_def)









subsection \<open>Behavior counters\<close>



subsection \<open>Reachable stores\<close>

lemma get_init_store: "get_session_redis (init_store redis) sid = None"
  by (simp add: get_session_redis_def init_store_def)

lemma reachable_run: "reachable st \<Longrightarrow> reachable (run st ops)"
proof (induction ops arbitrary: st)
  case Nil
  then show ?case by (simp add: run_Nil)
next
  case (Cons opn ops)
  then show ?case by (simp add: run_Cons reachable_step)
qed

lemma reachable_valid_key:
  "reachable st \<Longrightarrow> get_session_redis st sid = Some s \<Longrightarrow> validate_session_id (JStr sid)"
proof (induction arbitrary: s rule: reachable.induct)
  case (reachable_init redis)
  then show ?case by (simp add: get_init_store)
next
  case (reachable_step st opn)
  from step_cases [of st opn sid]
  consider "get_session_redis (step st opn) sid = get_session_redis st sid"
    | data where "fst (validate_behavior_data data)" "req_session_id data = sid"
    | s0 where "get_session_redis st sid = Some s0"
    by blast
  then show ?case
  proof cases
    case 1
    with reachable_step.prems have "get_session_redis st sid = Some s" by simp
    then show ?thesis by (rule reachable_step.IH)
  next
    case 2
    then show ?thesis using valid_requestD(3) by blast
  next
    case 3
    then show ?thesis by (rule reachable_step.IH)
  qed
qed

lemma session_ttl_store_put:
  "session_ttl (store_put st sid t s) sid = (if redis_client st then Some t else None)"
  by (simp add: session_ttl_def store_put_def update_conv')

lemma record_conversion_existing:
  assumes "reachable st" "get_session_redis st sid = Some s" "cr_session_id data = JStr sid"
  shows "record_conversion st data =
       (store_put st sid 3600 (convert_session s data),
        Inr \<lparr>cv_salvaged = is_salvaged s,
             cv_revenue_saved = (if is_salvaged s
                then (case cr_order_value data of Some v \<Rightarrow> v | None \<Rightarrow> 0) else 0),
             cv_conversion_status = (if is_salvaged s then ''salvaged'' else ''converted'')\<rparr>)"
  using assms reachable_valid_key record_conversion_present by blast

lemma mark_intervention_existing:
  assumes "reachable st" "get_session_redis st sid = Some s" "ir_session_id data = JStr sid"
  shows "mark_intervention st data = (store_put st sid 300 (mark_session s data), Inr ())"
  using assms reachable_valid_key mark_intervention_present by blast

lemma reachable_demo_store: "reachable demo_store"
  unfolding demo_store_def by (rule reachable_run) (rule reachable_init)

subsection \<open>Conversions and interventions\<close>

text \<open>
  C3. For a session that exists in a reachable store, \<open>record_conversion\<close> computes
  salvaged = (stored risk_score at least 60 and intervention_triggered), answers salvaged,
  revenue_saved (the order value if salvaged, else 0) and the new status, stores the session
  with conversion_status salvaged or converted accordingly and with order_value and
  converted_at set, under an expiry of 3600 seconds on Redis (the in-process dictionary
  keeps no expiry), and leaves every other session as it was.
\<close>

theorem record_conversion_salvage:
  assumes "reachable st" and "get_session_redis st sid = Some s"
    and "cr_session_id data = JStr sid"
  shows "(let salvaged = (risk_score s \<ge> 60 \<and> intervention_triggered s = True);
              ovalue = (case cr_order_value data of Some v \<Rightarrow> v | None \<Rightarrow> 0);
              status = (if salvaged then ''salvaged'' else ''converted'')
          in snd (record_conversion st data) =
               Inr \<lparr>cv_salvaged = salvaged,
                    cv_revenue_saved = (if salvaged then ovalue else 0),
                    cv_conversion_status = status\<rparr>
             \<and> get_session_redis (fst (record_conversion st data)) sid =
                 Some (s\<lparr>conversion_status := status, order_value := ovalue,
                          converted_at := Some (cr_timestamp data)\<rparr>)
             \<and> session_ttl (fst (record_conversion st data)) sid =
                 (if redis_client st then Some 3600 else None)
             \<and> (\<forall>sid'. sid' \<noteq> sid \<longrightarrow>
                   get_session_redis (fst (record_conversion st data)) sid' =
                   get_session_redis st sid'))"
  using record_conversion_existing [OF assms]
  by (simp add: Let_def get_store_put session_ttl_store_put convert_session_def is_salvaged_def)

theorem record_conversion_salvage_witness:
  "reachable demo_store
   \<and> map_option risk_score (get_session_redis demo_store ''s1'') = Some 75
   \<and> map_option intervention_triggered (get_session_redis demo_store ''s1'') = Some True
   \<and> snd (record_conversion demo_store (conv_req ''s1'' 120 2000)) =
       Inr \<lparr>cv_salvaged = True, cv_revenue_saved = 120, cv_conversion_status = ''salvaged''\<rparr>
   \<and> map_option conversion_status
        (get_session_redis (fst (record_conversion demo_store (conv_req ''s1'' 120 2000))) ''s1'')
       = Some ''salvaged''
   \<and> session_ttl (fst (record_conversion demo_store (conv_req ''s1'' 120 2000))) ''s1'' = Some 3600"
proof -
  have r: "reachable demo_store"
    by (rule reachable_demo_store)
  have a: "map_option risk_score (get_session_redis demo_store ''s1'') = Some 75"
    by code_simp
  have b: "map_option intervention_triggered (get_session_redis demo_store ''s1'') = Some True"
    by code_simp
  have c: "redis_client demo_store"
    by code_simp
  from a obtain s where s: "get_session_redis demo_store ''s1'' = Some s"
    by auto
  have d: "cr_session_id (conv_req ''s1'' 120 2000) = JStr ''s1''"
    "cr_order_value (conv_req ''s1'' 120 2000) = Some 120"
    by (simp_all add: conv_req_def)
  from record_conversion_salvage [OF r s d(1)] a b c s d(2) r show ?thesis
    by (simp add: Let_def)
qed

text \<open>
  C10. On an existing session \<open>mark_intervention\<close> changes at most intervention_triggered,
  intervention_type and intervention_time, and \<open>record_conversion\<close> at most
  conversion_status, order_value and converted_at; behaviors, events, risk_score,
  root_cause, suggested_action, the mood fields, mood_history, start_time and last_active
  are what they were: neither operation recomputes the risk score.
\<close>

theorem intervention_conversion_frame:
  assumes "reachable st" and "get_session_redis st sid = Some s"
  shows "(ir_session_id idata = JStr sid \<longrightarrow>
           (\<exists>s'. get_session_redis (fst (mark_intervention st idata)) sid = Some s'
              \<and> s' = s\<lparr>intervention_triggered := intervention_triggered s',
                        intervention_type := intervention_type s',
                        intervention_time := intervention_time s'\<rparr>
              \<and> behaviors s' = behaviors s \<and> events s' = events s
              \<and> risk_score s' = risk_score s \<and> root_cause s' = root_cause s
              \<and> suggested_action s' = suggested_action s \<and> mood s' = mood s
              \<and> mood_scores s' = mood_scores s \<and> mood_confidence s' = mood_confidence s
              \<and> mood_history s' = mood_history s \<and> start_time s' = start_time s
              \<and> last_active s' = last_active s))
       \<and> (cr_session_id cdata = JStr sid \<longrightarrow>
           (\<exists>s'. get_session_redis (fst (record_conversion st cdata)) sid = Some s'
              \<and> s' = s\<lparr>conversion_status := conversion_status s',
                        order_value := order_value s',
                        converted_at := converted_at s'\<rparr>
              \<and> behaviors s' = behaviors s \<and> events s' = events s
              \<and> risk_score s' = risk_score s \<and> root_cause s' = root_cause s
              \<and> suggested_action s' = suggested_action s \<and> mood s' = mood s
              \<and> mood_scores s' = mood_scores s \<and> mood_confidence s' = mood_confidence s
              \<and> mood_history s' = mood_history s \<and> start_time s' = start_time s
              \<and> last_active s' = last_active s))"
proof (intro conjI impI)
  assume "ir_session_id idata = JStr sid"
  with assms have "mark_intervention st idata = (store_put st sid 300 (mark_session s idata), Inr ())"
    by (rule mark_intervention_existing)
  then show "\<exists>s'. get_session_redis (fst (mark_intervention st idata)) sid = Some s'
              \<and> s' = s\<lparr>intervention_triggered := intervention_triggered s',
                        intervention_type := intervention_type s',
                        intervention_time := intervention_time s'\<rparr>
              \<and> behaviors s' = behaviors s \<and> events s' = events s
              \<and> risk_score s' = risk_score s \<and> root_cause s' = root_cause s
              \<and> suggested_action s' = suggested_action s \<and> mood s' = mood s
              \<and> mood_scores s' = mood_scores s \<and> mood_confidence s' = mood_confidence s
              \<and> mood_history s' = mood_history s \<and> start_time s' = start_time s
              \<and> last_active s' = last_active s"
    by (simp add: get_store_put mark_session_def)
next
  assume "cr_session_id cdata = JStr sid"
  with assms have "fst (record_conversion st cdata) = store_put st sid 3600 (convert_session s cdata)"
    by (simp add: record_conversion_existing)
  then show "\<exists>s'. get_session_redis (fst (record_conversion st cdata)) sid = Some s'
              \<and> s' = s\<lparr>conversion_status := conversion_status s',
                        order_value := order_value s',
                        converted_at := converted_at s'\<rparr>
              \<and> behaviors s' = behaviors s \<and> events s' = events s
              \<and> risk_score s' = risk_score s \<and> root_cause s' = root_cause s
              \<and> suggested_action s' = suggested_action s \<and> mood s' = mood s
              \<and> mood_scores s' = mood_scores s \<and> mood_confidence s' = mood_confidence s
              \<and> mood_history s' = mood_history s \<and> start_time s' = start_time s
              \<and> last_active s' = last_active s"
    by (simp add: get_store_put convert_session_def)
qed

theorem intervention_conversion_frame_witness:
  "reachable demo_store
   \<and> (\<exists>s s1 s2. get_session_redis demo_store ''s1'' = Some s
        \<and> get_session_redis (fst (mark_intervention demo_store (int_req ''s1'' 1800))) ''s1''
            = Some s1
        \<and> get_session_redis (fst (record_conversion demo_store (conv_req ''s1'' 120 2000))) ''s1''
            = Some s2
        \<and> risk_score s = 75 \<and> risk_score s1 = 75 \<and> risk_score s2 = 75
        \<and> behaviors s1 = behaviors s \<and> behaviors s2 = behaviors s
        \<and> last_active s1 = last_active s \<and> last_active s2 = last_active s)"
proof -
  have r: "reachable demo_store"
    by (rule reachable_demo_store)
  have a: "map_option risk_score (get_session_redis demo_store ''s1'') = Some 75"
    by code_simp
  then obtain s where s: "get_session_redis demo_store ''s1'' = Some s" and rs: "risk_score s = 75"
    by auto
  have d: "ir_session_id (int_req ''s1'' 1800) = JStr ''s1''"
    "cr_session_id (conv_req ''s1'' 120 2000) = JStr ''s1''"
    by (simp_all add: conv_req_def int_req_def)
  from intervention_conversion_frame [OF r s, of "int_req ''s1'' 1800" "conv_req ''s1'' 120 2000"]
    d s rs r show ?thesis
    by auto
qed

subsection \<open>Root cause\<close>




subsection \<open>Mood history\<close>




subsection \<open>Monotonicity of the score and the session invariant\<close>

lemma signal_count_mono:
  assumes "\<forall>k \<in> set scoring_keys. dict_get b k 0 \<le> dict_get b' k 0"
  shows "spec_signal_count b \<le> spec_signal_count b'"
proof -
  from assms have le:
    "dict_get b ''rageClicks'' 0 \<le> dict_get b' ''rageClicks'' 0"
    "dict_get b ''deadClicks'' 0 \<le> dict_get b' ''deadClicks'' 0"
    "dict_get b ''hesitations'' 0 \<le> dict_get b' ''hesitations'' 0"
    "dict_get b ''idleTime'' 0 \<le> dict_get b' ''idleTime'' 0"
    "dict_get b ''mouseJiggles'' 0 \<le> dict_get b' ''mouseJiggles'' 0"
    by (simp_all add: scoring_keys_def)
  have ind: "(if x \<ge> c then 1 else 0) \<le> (if y \<ge> c then 1 else (0::nat))" if "x \<le> y"
    for x y c :: rat
    using that by simp
  have "spec_signal_count b =
      (if dict_get b ''rageClicks'' 0 \<ge> 2 then 1 else 0) +
      (if dict_get b ''deadClicks'' 0 \<ge> 2 then 1 else 0) +
      (if dict_get b ''hesitations'' 0 \<ge> 3 then 1 else 0) +
      (if dict_get b ''idleTime'' 0 \<ge> 20 then 1 else 0) +
      (if dict_get b ''mouseJiggles'' 0 \<ge> 6 then 1 else 0)" for b
    by (simp add: spec_signal_count_def)
  then show ?thesis
    using ind [OF le(1), of 2] ind [OF le(2), of 2] ind [OF le(3), of 3]
      ind [OF le(4), of 20] ind [OF le(5), of 6]
    by (simp only:)
qed

lemma weighted_sum_mono:
  assumes "\<forall>k \<in> set scoring_keys. dict_get b k 0 \<le> dict_get b' k 0"
  shows "spec_weighted_sum b \<le> spec_weighted_sum b'"
proof -
  from assms have le:
    "dict_get b ''rageClicks'' 0 \<le> dict_get b' ''rageClicks'' 0"
    "dict_get b ''deadClicks'' 0 \<le> dict_get b' ''deadClicks'' 0"
    "dict_get b ''hesitations'' 0 \<le> dict_get b' ''hesitations'' 0"
    "dict_get b ''idleTime'' 0 \<le> dict_get b' ''idleTime'' 0"
    "dict_get b ''mouseJiggles'' 0 \<le> dict_get b' ''mouseJiggles'' 0"
    by (simp_all add: scoring_keys_def)
  have "min (dict_get b ''idleTime'' 0 / 2) 15 \<le> min (dict_get b' ''idleTime'' 0 / 2) 15"
    using le(4) by (simp add: min_def)
  with le show ?thesis
    unfolding spec_weighted_sum_def by linarith
qed

lemma weighted_sum_signal:
  assumes "non_negative b" and "1 \<le> spec_signal_count b"
  shows "12 \<le> spec_weighted_sum b"
proof -
  have nn: "0 \<le> dict_get b k 0" for k
    using assms(1) by (rule dict_get_nonneg)
  have m: "0 \<le> min (dict_get b ''idleTime'' 0 / 2) 15"
    using nn [of "''idleTime''"] by simp
  from assms(2) consider
      "dict_get b ''rageClicks'' 0 \<ge> 2" | "dict_get b ''deadClicks'' 0 \<ge> 2"
    | "dict_get b ''hesitations'' 0 \<ge> 3" | "dict_get b ''idleTime'' 0 \<ge> 20"
    | "dict_get b ''mouseJiggles'' 0 \<ge> 6"
    by (auto simp: spec_signal_count_def split: if_splits)
  then show ?thesis
  proof cases
    case 4
    then have "min (dict_get b ''idleTime'' 0 / 2) 15 \<ge> 10" by simp
    with nn [of "''rageClicks''"] nn [of "''deadClicks''"] nn [of "''hesitations''"]
      nn [of "''mouseJiggles''"] show ?thesis
      unfolding spec_weighted_sum_def by linarith
  next
    case 1
    with nn [of "''deadClicks''"] nn [of "''hesitations''"] nn [of "''mouseJiggles''"] m
    show ?thesis
      unfolding spec_weighted_sum_def by linarith
  next
    case 2
    with nn [of "''rageClicks''"] nn [of "''hesitations''"] nn [of "''mouseJiggles''"] m
    show ?thesis
      unfolding spec_weighted_sum_def by linarith
  next
    case 3
    with nn [of "''rageClicks''"] nn [of "''deadClicks''"] nn [of "''mouseJiggles''"] m
    show ?thesis
      unfolding spec_weighted_sum_def by linarith
  next
    case 5
    with nn [of "''rageClicks''"] nn [of "''deadClicks''"] nn [of "''hesitations''"] m
    show ?thesis
      unfolding spec_weighted_sum_def by linarith
  qed
qed

lemma calculate_churn_risk_mono:
  assumes nn: "non_negative b" "non_negative b'"
    and le: "\<forall>k \<in> set scoring_keys. dict_get b k 0 \<le> dict_get b' k 0"
  shows "calculate_churn_risk b \<le> calculate_churn_risk b'"
proof -
  have c: "spec_signal_count b \<le> spec_signal_count b'"
    using le by (rule signal_count_mono)
  have w: "spec_weighted_sum b \<le> spec_weighted_sum b'"
    using le by (rule weighted_sum_mono)
  have w0: "0 \<le> spec_weighted_sum b" "0 \<le> spec_weighted_sum b'"
    using nn by (simp_all add: spec_weighted_sum_nonneg)
  show ?thesis
  proof (cases "spec_signal_count b' < 2")
    case True
    with c show ?thesis
      by (simp add: calculate_churn_risk_unfold)
  next
    case hi: False
    show ?thesis
    proof (cases "spec_signal_count b < 2")
      case True
      then have "calculate_churn_risk b \<le> 10"
        by (simp add: calculate_churn_risk_unfold)
      moreover from hi have "12 \<le> spec_weighted_sum b'"
        using weighted_sum_signal [OF nn(2)] by simp
      then have "12 \<le> \<lfloor>spec_weighted_sum b'\<rfloor>"
        by (simp add: le_floor_iff)
      with hi w0 have "12 \<le> calculate_churn_risk b'"
        by (simp add: calculate_churn_risk_unfold py_int_nonneg)
      ultimately show ?thesis by simp
    next
      case False
      with hi w w0 show ?thesis
        by (simp add: calculate_churn_risk_unfold py_int_nonneg floor_mono min.coboundedI2)
    qed
  qed
qed

lemma non_negative_update:
  "non_negative sb \<Longrightarrow> 0 \<le> v \<Longrightarrow> non_negative (AList.update k v sb)"
  by (induction sb) (auto simp: non_negative_def)

lemma non_negative_update_behaviors:
  "non_negative sb \<Longrightarrow> non_negative (update_behaviors sb d)"
proof (induction sb d rule: update_behaviors.induct)
  case (1 sb)
  then show ?case by simp
next
  case (2 sb key v rest)
  have "0 \<le> max (dict_get sb key 0) (num_value v)"
    using dict_get_nonneg [OF 2(2), of key] by simp
  with 2 show ?case
    by (simp add: non_negative_update)
qed

lemma non_negative_new_session: "non_negative (behaviors (new_session sid t))"
  by (simp add: new_session_def non_negative_def)

lemma update_session_fields:
  "behaviors (update_session s0 t e d m ms mc) = update_behaviors (behaviors s0) d"
  "risk_score (update_session s0 t e d m ms mc) =
     calculate_churn_risk (update_behaviors (behaviors s0) d)"
  "conversion_status (update_session s0 t e d m ms mc) = conversion_status s0"
  "intervention_triggered (update_session s0 t e d m ms mc) = intervention_triggered s0"
  by (simp_all add: update_session_def Let_def)

lemma session_inv_update:
  assumes "non_negative (behaviors s0)"
    and "conversion_status s0 \<in> set [''pending'', ''converted'', ''salvaged'']"
    and "conversion_status s0 = ''salvaged'' \<longrightarrow>
           calculate_churn_risk (behaviors s0) \<ge> 60 \<and> intervention_triggered s0"
  shows "session_inv (update_session s0 t e d m ms mc)"
proof -
  have nn: "non_negative (update_behaviors (behaviors s0) d)"
    using assms(1) by (rule non_negative_update_behaviors)
  have "calculate_churn_risk (behaviors s0) \<le> calculate_churn_risk (update_behaviors (behaviors s0) d)"
    using assms(1) nn by (rule calculate_churn_risk_mono) (simp add: update_behaviors_mono)
  with assms nn show ?thesis
    by (auto simp: session_inv_def update_session_fields)
qed

lemma session_inv_tracked:
  assumes "\<And>s. get_session_redis st (req_session_id data) = Some s \<Longrightarrow> session_inv s"
  shows "session_inv (tracked_session st data)"
proof (cases "get_session_redis st (req_session_id data)")
  case None
  then have g: "get_or_create st (req_session_id data) (tr_timestamp data) =
      new_session (req_session_id data) (tr_timestamp data)"
    by (simp add: get_or_create_def)
  have c: "conversion_status (new_session (req_session_id data) (tr_timestamp data)) = ''pending''"
    by (simp add: new_session_def)
  show ?thesis
    unfolding tracked_session_def g
    by (rule session_inv_update) (simp_all add: non_negative_new_session c)
next
  case (Some s)
  then have g: "get_or_create st (req_session_id data) (tr_timestamp data) = s"
    by (rule get_or_create_Some)
  from assms [OF Some] have "session_inv s" .
  then show ?thesis
    unfolding tracked_session_def g
    by (intro session_inv_update) (auto simp: session_inv_def)
qed

lemma session_inv_mark: "session_inv s \<Longrightarrow> session_inv (mark_session s data)"
  by (auto simp: session_inv_def mark_session_def)

lemma session_inv_convert: "session_inv s \<Longrightarrow> session_inv (convert_session s data)"
  by (auto simp: session_inv_def convert_session_def is_salvaged_def)

lemma reachable_session_inv:
  "reachable st \<Longrightarrow> get_session_redis st sid = Some s \<Longrightarrow> session_inv s"
proof (induction arbitrary: sid s rule: reachable.induct)
  case (reachable_init redis)
  then show ?case by (simp add: get_init_store)
next
  case (reachable_step st opn)
  from step_cases [of st opn sid]
  consider "get_session_redis (step st opn) sid = get_session_redis st sid"
    | data where "req_session_id data = sid"
        "get_session_redis (step st opn) sid = Some (tracked_session st data)"
    | data s0 where "get_session_redis st sid = Some s0"
        "get_session_redis (step st opn) sid = Some (mark_session s0 data)"
    | data s0 where "get_session_redis st sid = Some s0"
        "get_session_redis (step st opn) sid = Some (convert_session s0 data)"
    by blast
  then show ?case
  proof cases
    case 1
    with reachable_step.prems have "get_session_redis st sid = Some s" by simp
    then show ?thesis by (rule reachable_step.IH)
  next
    case 2
    have "session_inv (tracked_session st data)"
      by (rule session_inv_tracked) (rule reachable_step.IH)
    with 2 reachable_step.prems show ?thesis by simp
  next
    case 3
    from reachable_step.IH [OF 3(1)] have "session_inv (mark_session s0 data)"
      by (rule session_inv_mark)
    with 3 reachable_step.prems show ?thesis by simp
  next
    case 4
    from reachable_step.IH [OF 4(1)] have "session_inv (convert_session s0 data)"
      by (rule session_inv_convert)
    with 4 reachable_step.prems show ?thesis by simp
  qed
qed

lemma step_status:
  assumes r: "reachable st" and g: "get_session_redis st sid = Some s"
  shows "\<exists>s'. get_session_redis (step st opn) sid = Some s'
     \<and> (conversion_status s \<noteq> ''pending'' \<longrightarrow> conversion_status s' \<noteq> ''pending'')
     \<and> (conversion_status s = ''salvaged'' \<longrightarrow> conversion_status s' = ''salvaged'')
     \<and> ((\<forall>d. opn = Convert d \<longrightarrow> cr_session_id d \<noteq> JStr sid) \<longrightarrow>
           conversion_status s' = conversion_status s)"
proof -
  have inv: "session_inv s"
    using r g by (rule reachable_session_inv)
  from step_cases [of st opn sid]
  consider "get_session_redis (step st opn) sid = get_session_redis st sid"
    | data where "req_session_id data = sid"
        "get_session_redis (step st opn) sid = Some (tracked_session st data)"
    | data s0 where "get_session_redis st sid = Some s0"
        "get_session_redis (step st opn) sid = Some (mark_session s0 data)"
    | data s0 where "opn = Convert data" "cr_session_id data = JStr sid"
        "get_session_redis st sid = Some s0"
        "get_session_redis (step st opn) sid = Some (convert_session s0 data)"
    by blast
  then show ?thesis
  proof cases
    case 1
    with g show ?thesis by simp
  next
    case 2
    with g have "conversion_status (tracked_session st data) = conversion_status s"
      by (simp add: tracked_session_def update_session_fields get_or_create_Some)
    with 2 show ?thesis by simp
  next
    case 3
    with g show ?thesis by (simp add: mark_session_def)
  next
    case 4
    with g have s0: "s0 = s" by simp
    from inv have "conversion_status s = ''salvaged'' \<longrightarrow> is_salvaged s"
      by (auto simp: session_inv_def is_salvaged_def)
    with 4 s0 show ?thesis
      by (simp add: convert_session_def)
  qed
qed

lemma run_status:
  assumes "reachable st" and "get_session_redis st sid = Some s"
  shows "\<exists>s'. get_session_redis (run st ops) sid = Some s'
     \<and> (conversion_status s \<noteq> ''pending'' \<longrightarrow> conversion_status s' \<noteq> ''pending'')
     \<and> (conversion_status s = ''salvaged'' \<longrightarrow> conversion_status s' = ''salvaged'')
     \<and> ((\<forall>d. Convert d \<in> set ops \<longrightarrow> cr_session_id d \<noteq> JStr sid) \<longrightarrow>
           conversion_status s' = conversion_status s)"
  using assms
proof (induction ops arbitrary: st s)
  case Nil
  then show ?case by (simp add: run_Nil)
next
  case (Cons opn ops)
  from step_status [OF Cons.prems, of opn] obtain s1 where
    s1: "get_session_redis (step st opn) sid = Some s1"
      "conversion_status s \<noteq> ''pending'' \<longrightarrow> conversion_status s1 \<noteq> ''pending''"
      "conversion_status s = ''salvaged'' \<longrightarrow> conversion_status s1 = ''salvaged''"
      "(\<forall>d. opn = Convert d \<longrightarrow> cr_session_id d \<noteq> JStr sid) \<longrightarrow>
           conversion_status s1 = conversion_status s"
    by blast
  have r1: "reachable (step st opn)"
    using Cons.prems(1) by (rule reachable_step)
  from Cons.IH [OF r1 s1(1)] obtain s' where
    s': "get_session_redis (run (step st opn) ops) sid = Some s'"
      "conversion_status s1 \<noteq> ''pending'' \<longrightarrow> conversion_status s' \<noteq> ''pending''"
      "conversion_status s1 = ''salvaged'' \<longrightarrow> conversion_status s' = ''salvaged''"
      "(\<forall>d. Convert d \<in> set ops \<longrightarrow> cr_session_id d \<noteq> JStr sid) \<longrightarrow>
           conversion_status s' = conversion_status s1"
    by blast
  show ?case
    using s1 s' by (auto simp: run_Cons)
qed

subsection \<open>Conversion status\<close>

text \<open>
  C4, as stated, fails: \<open>record_conversion\<close> has no guard on the current status and
  evaluates the salvage rule anew at every call. A session converted without an
  intervention is "converted"; after an intervention a second conversion makes it
  "salvaged".
\<close>

theorem conversion_status_reconverted:
  "status_after (init_store False) (take 2 reconversion_ops) ''c1'' = Some ''converted''
   \<and> status_after (init_store False) reconversion_ops ''c1'' = Some ''salvaged''"
  by code_simp

text \<open>
  C4, amended. For a session in a reachable store and any sequence of operations: the
  session stays in the store with status pending, converted or salvaged; once the status
  has left pending it never is pending again; once salvaged it stays salvaged; and only
  \<open>record_conversion\<close> for this session changes it (tracking events and interventions
  never do). A converted session may still become salvaged by a later conversion.
\<close>

theorem conversion_status_transitions:
  assumes "reachable st" and "get_session_redis st sid = Some s"
  shows "\<exists>s'. get_session_redis (run st ops) sid = Some s'
     \<and> conversion_status s' \<in> set [''pending'', ''converted'', ''salvaged'']
     \<and> (conversion_status s \<noteq> ''pending'' \<longrightarrow> conversion_status s' \<noteq> ''pending'')
     \<and> (conversion_status s = ''salvaged'' \<longrightarrow> conversion_status s' = ''salvaged'')
     \<and> ((\<forall>d. Convert d \<in> set ops \<longrightarrow> cr_session_id d \<noteq> JStr sid) \<longrightarrow>
           conversion_status s' = conversion_status s)"
proof -
  from run_status [OF assms, of ops] obtain s' where
    s': "get_session_redis (run st ops) sid = Some s'"
      "conversion_status s \<noteq> ''pending'' \<longrightarrow> conversion_status s' \<noteq> ''pending''"
      "conversion_status s = ''salvaged'' \<longrightarrow> conversion_status s' = ''salvaged''"
      "(\<forall>d. Convert d \<in> set ops \<longrightarrow> cr_session_id d \<noteq> JStr sid) \<longrightarrow>
           conversion_status s' = conversion_status s"
    by blast
  have "reachable (run st ops)"
    using assms(1) by (rule reachable_run)
  then have "session_inv s'"
    using s'(1) by (rule reachable_session_inv)
  then have "conversion_status s' \<in> set [''pending'', ''converted'', ''salvaged'']"
    by (simp add: session_inv_def)
  with s' show ?thesis by blast
qed

theorem conversion_status_transitions_witness:
  "reachable demo_store
   \<and> map_option conversion_status (get_session_redis demo_store ''s1'') = Some ''pending''
   \<and> (\<exists>s'. get_session_redis (run demo_store [Intervene (int_req ''s1'' 1800)]) ''s1'' = Some s'
         \<and> conversion_status s' = ''pending'')"
proof -
  have r: "reachable demo_store"
    by (rule reachable_demo_store)
  have a: "map_option conversion_status (get_session_redis demo_store ''s1'') = Some ''pending''"
    by code_simp
  then obtain s where s: "get_session_redis demo_store ''s1'' = Some s"
    and p: "conversion_status s = ''pending''"
    by auto
  have n: "\<forall>d. Convert d \<in> set [Intervene (int_req ''s1'' 1800)] \<longrightarrow> cr_session_id d \<noteq> JStr ''s1''"
    by simp
  from conversion_status_transitions [OF r s, of "[Intervene (int_req ''s1'' 1800)]"] n p a r
  show ?thesis
    by auto
qed

end
